theory Spec2Isabelle
  imports Main "HOL-Library.Word" "HOL-Library.Multiset"
begin

unbundle bit_operations_syntax

section \<open>Python values used by the MITM\<close>

text \<open>
  A Python \<open>bytes\<close> object is a list of 8-bit values. A Python \<open>str\<close> is a sequence of
  Unicode code points, so it is a list of naturals here (an Isabelle \<open>char\<close> is only 8 bits
  wide and could not hold a UTF-16 code unit). \<open>str\<close> turns an ASCII literal into such a
  string.
\<close>

type_synonym byte = "8 word"
type_synonym bytes = "byte list"
type_synonym pystr = "nat list"

definition str :: "string \<Rightarrow> pystr" where
  "str s = map of_char s"

datatype error = KeyError | ValueError | AttributeError | TypeError | ParserError

text \<open>
  \<open>str.replace(old, new)\<close>: one pass from the left, occurrences do not overlap. With an
  empty \<open>old\<close> Python puts \<open>new\<close> before every character and at the end.
\<close>

fun replace :: "'a list \<Rightarrow> 'a list \<Rightarrow> 'a list \<Rightarrow> 'a list" where
  "replace old new [] = (if old = [] then new else [])"
| "replace old new (c # cs) =
     (if old = [] then new @ c # replace old new cs
      else if take (length old) (c # cs) = old
           then new @ replace old new (drop (length old - 1) cs)
           else c # replace old new cs)"

text \<open>\<open>str.strip(chars)\<close>: drops the characters of \<open>chars\<close> at both ends.\<close>

definition strip :: "'a list \<Rightarrow> 'a list \<Rightarrow> 'a list" where
  "strip chars s =
     rev (dropWhile (\<lambda>c. c \<in> set chars) (rev (dropWhile (\<lambda>c. c \<in> set chars) s)))"

text \<open>
  \<open>io.BytesIO\<close>: \<open>stream.seek(pos)\<close> followed by \<open>stream.write(d)\<close>. The stealer seeks
  before every write and reads the buffer with \<open>getvalue()\<close> only, so a stream is its
  contents. Writing past the end fills the gap with zero bytes; writing no bytes changes
  nothing, also after a seek past the end.
\<close>

definition seek_write :: "bytes \<Rightarrow> nat \<Rightarrow> bytes \<Rightarrow> bytes" where
  "seek_write buf pos d =
     (if d = [] then buf
      else take pos (buf @ replicate (pos - length buf) 0) @ d @ drop (pos + length d) buf)"

section \<open>Device redirection PDUs\<close>

text \<open>
  The request classes: \<open>DeviceReadRequestPDU\<close>, \<open>DeviceCreateRequestPDU\<close> and
  \<open>DeviceCloseRequestPDU\<close> extend \<open>DeviceIORequestPDU\<close>; the last constructor is a request
  of any other major function.
\<close>

datatype io_request =
    DeviceReadRequestPDU (deviceId: nat) (fileId: nat) (completionId: nat)
      (readLength: nat) (offset: nat)
  | DeviceCreateRequestPDU (deviceId: nat) (fileId: nat) (completionId: nat)
      (desiredAccess: int) (createOptions: int) (path: bytes)
  | DeviceCloseRequestPDU (deviceId: nat) (fileId: nat) (completionId: nat)
  | DeviceIORequestPDU (deviceId: nat) (fileId: nat) (completionId: nat) (majorFunction: nat)

text \<open>
  The response classes. The channel's parser delivers every I/O completion as a
  \<open>DeviceIOResponsePDU\<close> with its payload unparsed; the two other classes are what
  \<open>parseReadResponse\<close> and \<open>parseDeviceCreateResponse\<close> build from it.
\<close>

datatype io_response =
    DeviceIOResponsePDU (rsp_deviceId: nat) (rsp_completionId: nat) (ioStatus: nat)
      (payload: bytes)
  | DeviceReadResponsePDU (rsp_deviceId: nat) (rsp_completionId: nat) (ioStatus: nat)
      (readData: bytes)
  | DeviceCreateResponsePDU (rsp_deviceId: nat) (rsp_completionId: nat) (ioStatus: nat)
      (rsp_fileId: nat) (information: bytes)

record device_announce =
  deviceType :: nat
  announcedId :: nat
  deviceData :: bytes

datatype pdu =
    IORequest io_request
  | IOResponse io_response
  | DeviceListAnnounceRequest "device_announce list"
  | DeviceRedirectionServerCapabilitiesPDU bytes
  | DeviceRedirectionClientCapabilitiesPDU bytes
  | OtherPDU nat

section \<open>What the stealer imports from the rest of pyrdp\<close>

text \<open>
  \<open>decodeUTF16LE\<close>, the two response parsers of \<open>DeviceRedirectionParser\<close> and the
  enumerations \<open>FileAccess\<close>, \<open>CreateOption\<close>, \<open>IOOperationSeverity\<close> and \<open>MajorFunction\<close>
  are defined outside the files at hand. They are parameters of the model: every theorem
  below holds for whatever they are. A parser may raise; \<open>isMajorFunction\<close> says which
  numbers \<open>MajorFunction(n)\<close> accepts.
\<close>

record pyrdp =
  decodeUTF16LE :: "bytes \<Rightarrow> pystr"
  parseReadResponse :: "io_response \<Rightarrow> error + io_response"
  parseDeviceCreateResponse :: "io_response \<Rightarrow> error + io_response"
  isMajorFunction :: "nat \<Rightarrow> bool"
  GENERIC_READ :: int
  FILE_READ_DATA :: int
  FILE_NON_DIRECTORY_FILE :: int
  STATUS_SEVERITY_ERROR :: nat

section \<open>The passive file stealer\<close>

datatype level = DEBUG | INFO | WARNING | ERROR

text \<open>
  One \<open>PassiveFileStealer\<close>. \<open>sent\<close> is what went through \<open>self.layer.sendPDU\<close>, in
  order; \<open>mitm_log\<close> holds the level and the message template of every logging call.
  \<open>finalFiles\<close> maps a file name to the contents of its \<open>BytesIO\<close>.
\<close>

record stealer =
  completionIdInProgress :: "nat \<rightharpoonup> io_request"
  openedFiles :: "nat \<rightharpoonup> bytes"
  finalFiles :: "pystr \<rightharpoonup> bytes"
  pduToSend :: "pdu option"
  sent :: "pdu list"
  mitm_log :: "(level \<times> string) list"

text \<open>
  A handler runs on one stealer (\<open>self\<close>), reaches the other one through \<open>self.peer\<close> and
  writes files below the working directory; \<open>disk\<close> maps a path to the bytes last written
  there with \<open>open(path, "wb")\<close>. The file system is taken to accept every
  \<open>os.makedirs\<close> and every \<open>open\<close>.
\<close>

record world =
  self :: stealer
  peer :: stealer
  disk :: "pystr \<rightharpoonup> bytes"

text \<open>
  A handler returns the new state, or the exception it raised together with the state
  reached when it was raised.
\<close>

type_synonym outcome = "(error \<times> world) + world"

definition init_stealer :: stealer where
  "init_stealer = \<lparr>completionIdInProgress = Map.empty, openedFiles = Map.empty,
     finalFiles = Map.empty, pduToSend = None, sent = [], mitm_log = []\<rparr>"

definition logmsg :: "level \<Rightarrow> string \<Rightarrow> world \<Rightarrow> world" where
  "logmsg l m w = w\<lparr>self := (self w)\<lparr>mitm_log := mitm_log (self w) @ [(l, m)]\<rparr>\<rparr>"

definition bytesToPath :: "pyrdp \<Rightarrow> bytes \<Rightarrow> pystr" where
  "bytesToPath H pathAsBytes = strip [0] (decodeUTF16LE H pathAsBytes)"

definition goodPath :: "pystr \<Rightarrow> pystr" where
  "goodPath p = str ''./saved_files/'' @ replace (str ''..'') [] (replace [92] [47] p)"

definition writeToDisk :: "world \<Rightarrow> pystr \<Rightarrow> bytes \<Rightarrow> world" where
  "writeToDisk w p stream =
     (logmsg INFO ''Writing %(path)s to disk.'' w)\<lparr>disk := (disk w)(goodPath p \<mapsto> stream)\<rparr>"

text \<open>
  In the last branch of \<open>handleIORequest\<close> the message names the major function with
  \<open>MajorFunction(pdu.majorFunction).name\<close>, which raises \<open>ValueError\<close> for a number that
  is not in the enumeration; a Close request carries \<open>IRP_MJ_CLOSE\<close>, which is.
\<close>

definition handleIORequest :: "pyrdp \<Rightarrow> world \<Rightarrow> io_request \<Rightarrow> outcome" where
  "handleIORequest H w r =
     (let w1 = w\<lparr>peer := (peer w)\<lparr>completionIdInProgress :=
                 (completionIdInProgress (peer w))(completionId r \<mapsto> r)\<rparr>\<rparr>
      in case r of
           DeviceReadRequestPDU _ fid _ _ _ \<Rightarrow>
             (case openedFiles (peer w1) fid of
                None \<Rightarrow> Inl (KeyError, w1)
              | Some _ \<Rightarrow> Inr (logmsg DEBUG ''ReadRequest received for file'' w1))
         | DeviceCreateRequestPDU _ _ _ access _ _ \<Rightarrow>
             (if access AND (GENERIC_READ H OR FILE_READ_DATA H) \<noteq> 0
              then Inr (logmsg DEBUG ''Create request for read received for path'' w1)
              else Inr w1)
         | DeviceCloseRequestPDU _ _ _ \<Rightarrow> Inr (logmsg DEBUG ''Unparsed request'' w1)
         | DeviceIORequestPDU _ _ _ mf \<Rightarrow>
             (if isMajorFunction H mf then Inr (logmsg DEBUG ''Unparsed request'' w1)
              else Inl (ValueError, w1)))"

definition handleReadResponse :: "pyrdp \<Rightarrow> world \<Rightarrow> io_response \<Rightarrow> io_request \<Rightarrow> outcome" where
  "handleReadResponse H w r requestPDU =
     (case parseReadResponse H r of
        Inl e \<Rightarrow> Inl (e, w)
      | Inr readDataResponsePDU \<Rightarrow>
          (let w1 = w\<lparr>self := (self w)\<lparr>pduToSend := Some (IOResponse readDataResponsePDU)\<rparr>\<rparr>
           in case openedFiles (self w1) (fileId requestPDU) of
                None \<Rightarrow> Inl (KeyError, w1)
              | Some p \<Rightarrow>
                  (let fileName = bytesToPath H p;
                       stream = (case finalFiles (self w1) fileName of
                                   None \<Rightarrow> [] | Some s \<Rightarrow> s);
                       w2 = w1\<lparr>self := (self w1)\<lparr>finalFiles :=
                              (finalFiles (self w1))(fileName \<mapsto> stream)\<rparr>\<rparr>
                   in case readDataResponsePDU of
                        DeviceReadResponsePDU _ _ _ d \<Rightarrow>
                          Inr (w2\<lparr>self := (self w2)\<lparr>finalFiles := (finalFiles (self w2))
                                 (fileName \<mapsto> seek_write stream (offset requestPDU) d)\<rparr>\<rparr>)
                      | _ \<Rightarrow> Inl (AttributeError, w2))))"

definition handleCreateResponse :: "pyrdp \<Rightarrow> world \<Rightarrow> io_response \<Rightarrow> io_request \<Rightarrow> outcome" where
  "handleCreateResponse H w r requestPDU =
     (case parseDeviceCreateResponse H r of
        Inl e \<Rightarrow> Inl (e, w)
      | Inr createResponse \<Rightarrow>
          (let w1 = w\<lparr>self := (self w)\<lparr>pduToSend := Some (IOResponse createResponse)\<rparr>\<rparr>
           in if desiredAccess requestPDU AND (GENERIC_READ H OR FILE_READ_DATA H) \<noteq> 0
                 \<and> createOptions requestPDU AND FILE_NON_DIRECTORY_FILE H \<noteq> 0
              then (case createResponse of
                      DeviceCreateResponsePDU _ _ _ fid _ \<Rightarrow>
                        (let w2 = logmsg DEBUG ''Opening file %(path)s as number %(number)d'' w1
                         in Inr (w2\<lparr>self := (self w2)\<lparr>openedFiles :=
                                  (openedFiles (self w2))(fid \<mapsto> path requestPDU)\<rparr>\<rparr>))
                    | _ \<Rightarrow> Inl (AttributeError, w1))
              else Inr w1))"

definition handleCloseResponse :: "pyrdp \<Rightarrow> world \<Rightarrow> io_response \<Rightarrow> io_request \<Rightarrow> outcome" where
  "handleCloseResponse H w r requestPDU =
     (case openedFiles (self w) (fileId requestPDU) of
        None \<Rightarrow> Inr w
      | Some p \<Rightarrow>
          (let w1 = logmsg DEBUG ''Closing file: %(fileId)s.'' w;
               fileName = bytesToPath H p;
               w2 = (case finalFiles (self w1) fileName of
                       None \<Rightarrow> w1 | Some stream \<Rightarrow> writeToDisk w1 fileName stream)
           in Inr (w2\<lparr>self := (self w2)\<lparr>openedFiles :=
                     (openedFiles (self w2))(fileId requestPDU := None)\<rparr>\<rparr>)))"

definition handleIOResponse :: "pyrdp \<Rightarrow> world \<Rightarrow> io_response \<Rightarrow> outcome" where
  "handleIOResponse H w r =
     (case completionIdInProgress (self w) (rsp_completionId r) of
        None \<Rightarrow> Inr (logmsg ERROR ''Completion id %(completionId)d not in the completionId in progress list.'' w)
      | Some requestPDU \<Rightarrow>
          (let w1 = (if drop_bit 30 (ioStatus r) = STATUS_SEVERITY_ERROR H
                     then logmsg WARNING ''Received an IO Response with an error IO status'' w
                     else w)
           in case (case requestPDU of
                      DeviceReadRequestPDU _ _ _ _ _ \<Rightarrow>
                        handleReadResponse H (logmsg DEBUG ''Read response received.'' w1) r requestPDU
                    | DeviceCreateRequestPDU _ _ _ _ _ _ \<Rightarrow> handleCreateResponse H w1 r requestPDU
                    | DeviceCloseRequestPDU _ _ _ \<Rightarrow> handleCloseResponse H w1 r requestPDU
                    | DeviceIORequestPDU _ _ _ _ \<Rightarrow>
                        Inr (logmsg DEBUG ''Unknown response received: %(pdu)s'' w1)) of
                Inl e \<Rightarrow> Inl e
              | Inr w2 \<Rightarrow>
                  (case completionIdInProgress (self w2) (rsp_completionId r) of
                     None \<Rightarrow> Inl (KeyError, w2)
                   | Some _ \<Rightarrow> Inr (w2\<lparr>self := (self w2)\<lparr>completionIdInProgress :=
                       (completionIdInProgress (self w2))(rsp_completionId r := None)\<rparr>\<rparr>))))"

definition handleDeviceListAnnounceRequest :: "world \<Rightarrow> device_announce list \<Rightarrow> world" where
  "handleDeviceListAnnounceRequest w deviceList =
     fold (\<lambda>device. logmsg INFO ''%(deviceName)s mapped with ID %(deviceId)d: %(deviceData)s'')
       deviceList w"

text \<open>\<open>self.peer.sendPDU(p)\<close>: the peer hands the PDU to its layer.\<close>

definition peer_sendPDU :: "pdu \<Rightarrow> world \<Rightarrow> world" where
  "peer_sendPDU p w = w\<lparr>peer := (peer w)\<lparr>sent := sent (peer w) @ [p]\<rparr>\<rparr>"

definition onPDUReceived :: "pyrdp \<Rightarrow> world \<Rightarrow> pdu \<Rightarrow> outcome" where
  "onPDUReceived H w p =
     (let w0 = w\<lparr>self := (self w)\<lparr>pduToSend := Some p\<rparr>\<rparr>
      in case (case p of
                 IORequest r \<Rightarrow> handleIORequest H w0 r
               | IOResponse r \<Rightarrow> handleIOResponse H w0 r
               | DeviceListAnnounceRequest ds \<Rightarrow> Inr (handleDeviceListAnnounceRequest w0 ds)
               | DeviceRedirectionServerCapabilitiesPDU _ \<Rightarrow>
                   Inr (logmsg DEBUG ''Received Server capabilities'' w0)
               | DeviceRedirectionClientCapabilitiesPDU _ \<Rightarrow>
                   Inr (logmsg DEBUG ''Received Client capabilities'' w0)
               | OtherPDU _ \<Rightarrow> Inr (logmsg DEBUG ''Received unparsed PDU'' w0)) of
           Inl e \<Rightarrow> Inl e
         | Inr w1 \<Rightarrow>
             (case pduToSend (self w1) of
                None \<Rightarrow> Inl (TypeError, w1)
              | Some q \<Rightarrow> Inr (peer_sendPDU q w1)))"


subsection \<open>Traces over the two stealers of a session\<close>

text \<open>
  The two stealers of a session are each other's \<open>peer\<close>. A trace is the list of PDUs
  in the order they arrive; each says which of the two stealers receives it. An exception
  ends the run.
\<close>

definition swap :: "world \<Rightarrow> world" where
  "swap w = \<lparr>self = peer w, peer = self w, disk = disk w\<rparr>"

datatype event = ToPeer pdu | ToSelf pdu

fun deliver :: "pyrdp \<Rightarrow> world \<Rightarrow> event \<Rightarrow> outcome" where
  "deliver H w (ToSelf p) = onPDUReceived H w p"
| "deliver H w (ToPeer p) = map_sum (apsnd swap) swap (onPDUReceived H (swap w) p)"

fun run :: "pyrdp \<Rightarrow> world \<Rightarrow> event list \<Rightarrow> outcome" where
  "run H w [] = Inr w"
| "run H w (e # es) = (case deliver H w e of Inl x \<Rightarrow> Inl x | Inr w' \<Rightarrow> run H w' es)"

definition session :: "(pystr \<rightharpoonup> bytes) \<Rightarrow> world" where
  "session d = \<lparr>self = init_stealer, peer = init_stealer, disk = d\<rparr>"

text \<open>
  Requests arrive at one stealer, which files them in its peer's
  \<open>completionIdInProgress\<close>; the responses arrive at that peer.
\<close>

definition exchange :: "io_request \<times> io_response \<Rightarrow> event list" where
  "exchange x = [ToPeer (IORequest (fst x)), ToSelf (IOResponse (snd x))]"











subsection \<open>The path on disk, in the words of the specification\<close>

text \<open>
  The specification's steps, each written out on its own: trim the trailing NULs, turn
  every backslash into a slash, remove every \<open>..\<close>, put \<open>./saved_files/\<close> in front.
\<close>

definition trim_trailing_NULs :: "pystr \<Rightarrow> pystr" where
  "trim_trailing_NULs s = rev (dropWhile (\<lambda>c. c = 0) (rev s))"

definition trim_leading_NULs :: "pystr \<Rightarrow> pystr" where
  "trim_leading_NULs s = dropWhile (\<lambda>c. c = 0) s"

definition backslashes_to_slashes :: "pystr \<Rightarrow> pystr" where
  "backslashes_to_slashes s = map (\<lambda>c. if c = 92 then 47 else c) s"

fun remove_dotdot :: "pystr \<Rightarrow> pystr" where
  "remove_dotdot (a # b # cs) =
     (if a = 46 \<and> b = 46 then remove_dotdot cs else a # remove_dotdot (b # cs))"
| "remove_dotdot cs = cs"

definition spec_path :: "pyrdp \<Rightarrow> bytes \<Rightarrow> pystr" where
  "spec_path H remote =
     str ''./saved_files/''
       @ remove_dotdot (backslashes_to_slashes (trim_trailing_NULs (decodeUTF16LE H remote)))"

text \<open>
  The path the stealer writes to: \<open>handleCloseResponse\<close> passes
  \<open>bytesToPath(self.openedFiles[fileId])\<close> to \<open>writeToDisk\<close>.
\<close>

definition on_disk_path :: "pyrdp \<Rightarrow> bytes \<Rightarrow> pystr" where
  "on_disk_path H remote = goodPath (bytesToPath H remote)"

subsection \<open>What is forwarded\<close>

text \<open>
  The PDU a stealer hands to its peer when \<open>onPDUReceived\<close> returns: the one received,
  or, for a response to a pending Read or Create request, the one the parser built.
\<close>

definition forwarded :: "pyrdp \<Rightarrow> world \<Rightarrow> pdu \<Rightarrow> pdu" where
  "forwarded H w p =
     (case p of
        IOResponse r \<Rightarrow>
          (case completionIdInProgress (self w) (rsp_completionId r) of
             Some (DeviceReadRequestPDU _ _ _ _ _) \<Rightarrow>
               (case parseReadResponse H r of Inr x \<Rightarrow> IOResponse x | Inl _ \<Rightarrow> p)
           | Some (DeviceCreateRequestPDU _ _ _ _ _ _) \<Rightarrow>
               (case parseDeviceCreateResponse H r of Inr x \<Rightarrow> IOResponse x | Inl _ \<Rightarrow> p)
           | _ \<Rightarrow> p)
      | _ \<Rightarrow> p)"

definition sent_to_peer :: "outcome \<Rightarrow> pdu list option" where
  "sent_to_peer res = (case res of Inl _ \<Rightarrow> None | Inr w \<Rightarrow> Some (sent (peer w)))"

definition raised :: "outcome \<Rightarrow> error option" where
  "raised res = (case res of Inl x \<Rightarrow> Some (fst x) | Inr _ \<Rightarrow> None)"

subsection \<open>A concrete instance of the imports\<close>

text \<open>
  Modelled from the spec: \<open>decodeUTF16LE\<close>, \<open>DeviceRedirectionParser\<close> and the
  enumerations are not among the source files, and the specification names them
  ("decode UTF-16LE", "parse response", "read-intent", "non-directory") without their
  layout or values. Where a statement needs a concrete input the instance below is used:
  16-bit little-endian code units (no surrogate pairs occur in the inputs), a response
  payload that starts with a 32-bit little-endian length or file id, and the protocol's
  numbers for the enumerations. No theorem about all inputs depends on it.
\<close>

fun utf16le :: "bytes \<Rightarrow> pystr" where
  "utf16le (lo # hi # bs) = (unat lo + 256 * unat hi) # utf16le bs"
| "utf16le _ = []"

definition Uint32LE :: "bytes \<Rightarrow> nat option" where
  "Uint32LE bs =
     (case bs of
        a # b # c # d # _ \<Rightarrow> Some (unat a + 256 * unat b + 65536 * unat c + 16777216 * unat d)
      | _ \<Rightarrow> None)"

definition rdpefs_parseReadResponse :: "io_response \<Rightarrow> error + io_response" where
  "rdpefs_parseReadResponse r =
     (case r of
        DeviceIOResponsePDU dev cid st pl \<Rightarrow>
          (case Uint32LE pl of
             None \<Rightarrow> Inl ParserError
           | Some n \<Rightarrow> Inr (DeviceReadResponsePDU dev cid st (take n (drop 4 pl))))
      | _ \<Rightarrow> Inl ParserError)"

definition rdpefs_parseDeviceCreateResponse :: "io_response \<Rightarrow> error + io_response" where
  "rdpefs_parseDeviceCreateResponse r =
     (case r of
        DeviceIOResponsePDU dev cid st pl \<Rightarrow>
          (case Uint32LE pl of
             None \<Rightarrow> Inl ParserError
           | Some n \<Rightarrow> Inr (DeviceCreateResponsePDU dev cid st n (take 1 (drop 4 pl))))
      | _ \<Rightarrow> Inl ParserError)"

definition rdpefs :: pyrdp where
  "rdpefs = \<lparr>decodeUTF16LE = utf16le,
     parseReadResponse = rdpefs_parseReadResponse,
     parseDeviceCreateResponse = rdpefs_parseDeviceCreateResponse,
     isMajorFunction = (\<lambda>n. n \<in> set [0, 2, 3, 4, 5, 6, 10, 11, 12, 14, 17]),
     GENERIC_READ = 0x80000000, FILE_READ_DATA = 1, FILE_NON_DIRECTORY_FILE = 0x40,
     STATUS_SEVERITY_ERROR = 3\<rparr>"


section \<open>The client side of the MITM\<close>

text \<open>The fields of the PDUs that \<open>MITMClient\<close> reads or writes.\<close>

record client_info_pdu =
  codePage :: nat
  flags :: int
  domain :: pystr
  username :: pystr
  password :: pystr
  alternateShell :: pystr
  workingDir :: pystr
  extraInfo :: bytes

record core_data =
  clientName :: pystr
  desktopWidth :: nat
  desktopHeight :: nat
  earlyCapabilityFlags :: int

record channel_definition =
  channelName :: pystr
  channelOptions :: nat

record client_data_pdu =
  coreData :: core_data
  securityData :: bytes
  networkData :: "channel_definition list option"
  clusterData :: bytes

record negotiation_response =
  negotiationType :: nat
  tlsSelected :: bool

datatype player_message_type =
    CONNECTION_CLOSE | CLIENT_INFO | SLOW_PATH_PDU | FAST_PATH_INPUT | FAST_PATH_OUTPUT
  | CLIPBOARD_DATA | CLIENT_DATA

text \<open>
  The enumerations \<open>ClientInfoFlags\<close>, \<open>ClientCapabilityFlag\<close> and \<open>NegotiationType\<close> and
  the \<open>NegotiationResponseParser\<close> are defined outside the files at hand: parameters
  again.
\<close>

record rdp_enums =
  INFO_AUTOLOGON :: int
  INFO_COMPRESSION :: int
  INFO_CompressionTypeMask :: int
  RNS_UD_CS_WANT_32BPP_SESSION :: int
  TYPE_RDP_NEG_FAILURE :: nat
  parseNegotiationResponse :: "bytes \<Rightarrow> error + negotiation_response"

record tcp_layer =
  tlsStarted :: bool
  disconnected :: bool

datatype server_call = Server_onConnectionConfirm bytes | Server_disconnect

text \<open>
  The state of one \<open>MITMClient\<close>, as far as the handlers below touch it.
  \<open>securityLayer\<close> is \<open>None\<close> until \<open>buildIOChannel\<close> has run, then the PDUs given to
  \<open>sendClientInfo\<close>; \<open>rdpConnect\<close> is what went through \<open>rdpConnect.sendPDU\<close>;
  \<open>server\<close> lists the calls made on \<open>self.server\<close>; \<open>recorder\<close> is the recording.
\<close>

record mitm_client =
  replacementUsername :: "pystr option"
  replacementPassword :: "pystr option"
  channelDefinitions :: "channel_definition list"
  useTLS :: bool
  tcp :: tcp_layer
  securityLayer :: "client_info_pdu list option"
  conferenceName :: bytes
  rdpConnect :: "client_data_pdu list"
  recorder :: "(player_message_type \<times> client_data_pdu) list"
  server :: "server_call list"
  log :: "(level \<times> string) list"

text \<open>
  Modelled from the spec: \<open>Recorder.record\<close> is not among the source files. The
  specification has it serialise the PDU and send the framed event to every sink before it
  returns, so the event holds the PDU as it is at the time of the call. The serialised
  bytes are stood for by that value; the timestamp is left out.
\<close>

definition Recorder_record ::
  "client_data_pdu \<Rightarrow> player_message_type \<Rightarrow> mitm_client \<Rightarrow> mitm_client" where
  "Recorder_record p messageType c = c\<lparr>recorder := recorder c @ [(messageType, p)]\<rparr>"

definition client_log :: "level \<Rightarrow> string \<Rightarrow> mitm_client \<Rightarrow> mitm_client" where
  "client_log l m c = c\<lparr>log := log c @ [(l, m)]\<rparr>"

definition disconnect :: "mitm_client \<Rightarrow> mitm_client" where
  "disconnect c = (client_log DEBUG ''Disconnecting'' c)\<lparr>tcp := (tcp c)\<lparr>disconnected := True\<rparr>\<rparr>"

definition onDisconnectRequest :: "mitm_client \<Rightarrow> mitm_client" where
  "onDisconnectRequest c = disconnect (client_log DEBUG ''X224 Disconnect Request received'' c)"

definition onUnknownTPKTHeader :: "mitm_client \<Rightarrow> nat \<Rightarrow> mitm_client" where
  "onUnknownTPKTHeader c header =
     disconnect (client_log ERROR
       ''Closing the connection because an unknown TPKT header was received.'' c)"

definition onConnectionConfirm ::
  "rdp_enums \<Rightarrow> mitm_client \<Rightarrow> bytes \<Rightarrow> (error \<times> mitm_client) + mitm_client" where
  "onConnectionConfirm E c pdu_payload =
     (let c1 = client_log DEBUG ''Connection Confirm received'' c
      in case parseNegotiationResponse E pdu_payload of
           Inl e \<Rightarrow> Inl (e, c1)
         | Inr response \<Rightarrow>
             (let c2 = (if negotiationType response = TYPE_RDP_NEG_FAILURE E
                        then client_log ERROR
                          ''Server returned a TYPE_RDP_NEG_FAILURE packet, most likely because NLA is enforced by the server and the MITM does not handle NLA.'' c1
                        else c1);
                  c3 = (if tlsSelected response
                        then c2\<lparr>tcp := (tcp c2)\<lparr>tlsStarted := True\<rparr>, useTLS := True\<rparr>
                        else c2)
              in Inr (c3\<lparr>server := server c3 @ [Server_onConnectionConfirm pdu_payload]\<rparr>)))"

definition onConnectInitial :: "rdp_enums \<Rightarrow> mitm_client \<Rightarrow> bytes \<Rightarrow> client_data_pdu \<Rightarrow> mitm_client" where
  "onConnectInitial E c gccConferenceName clientData =
     (let c1 = client_log INFO ''Client Data received with client name %(clientName)s, resolution %(desktopWidth)dx%(desktopHeight)d'' c;
          c2 = Recorder_record clientData CLIENT_DATA c1;
          clientData1 = clientData\<lparr>coreData := (coreData clientData)\<lparr>earlyCapabilityFlags :=
             earlyCapabilityFlags (coreData clientData) AND NOT (RNS_UD_CS_WANT_32BPP_SESSION E)\<rparr>\<rparr>;
          c3 = (case networkData clientData1 of
                  None \<Rightarrow> c2
                | Some defs \<Rightarrow> c2\<lparr>channelDefinitions := defs\<rparr>);
          c4 = c3\<lparr>conferenceName := gccConferenceName\<rparr>
      in c4\<lparr>rdpConnect := rdpConnect c4 @ [clientData1]\<rparr>)"

definition onClientInfoPDUReceived ::
  "rdp_enums \<Rightarrow> mitm_client \<Rightarrow> client_info_pdu \<Rightarrow> (error \<times> mitm_client) + mitm_client" where
  "onClientInfoPDUReceived E c p =
     (let p1 = (case replacementUsername c of None \<Rightarrow> p | Some u \<Rightarrow> p\<lparr>username := u\<rparr>);
          p2 = (case replacementPassword c of None \<Rightarrow> p1 | Some pw \<Rightarrow> p1\<lparr>password := pw\<rparr>);
          p3 = (if replacementUsername c \<noteq> None \<and> replacementPassword c \<noteq> None
                then p2\<lparr>flags := flags p2 OR INFO_AUTOLOGON E\<rparr> else p2);
          p4 = p3\<lparr>flags := flags p3 AND NOT (INFO_COMPRESSION E)\<rparr>;
          p5 = p4\<lparr>flags := flags p4 AND NOT (INFO_CompressionTypeMask E)\<rparr>;
          c1 = client_log DEBUG ''Sending Client Info: %(arg1)s'' c
      in case securityLayer c1 of
           None \<Rightarrow> Inl (AttributeError, c1)
         | Some out \<Rightarrow> Inr (c1\<lparr>securityLayer := Some (out @ [p5])\<rparr>))"

text \<open>What the server receives from \<open>sendClientInfo\<close>, if the handler returned.\<close>

definition client_info_sent :: "(error \<times> mitm_client) + mitm_client \<Rightarrow> client_info_pdu list" where
  "client_info_sent res =
     (case res of Inl _ \<Rightarrow> [] | Inr c \<Rightarrow> (case securityLayer c of None \<Rightarrow> [] | Some out \<Rightarrow> out))"

text \<open>
  Modelled from the spec: the client-side enumerations and the negotiation parser are
  not among the source files and the specification gives no numbers for them. The
  instance below, used at concrete inputs only, takes the protocol's values for the flags,
  and reads a negotiation structure as its type byte, one flags byte, a 16-bit length and
  the 32-bit selected protocol, of which bit 0 is TLS.
\<close>

definition rdpbcgr_parseNegotiationResponse :: "bytes \<Rightarrow> error + negotiation_response" where
  "rdpbcgr_parseNegotiationResponse bs =
     (case bs of
        t # _ # _ # _ # sel # _ \<Rightarrow>
          Inr \<lparr>negotiationType = unat t, tlsSelected = (unat t = 2 \<and> bit sel 0)\<rparr>
      | _ \<Rightarrow> Inl ParserError)"

definition rdpbcgr :: rdp_enums where
  "rdpbcgr = \<lparr>INFO_AUTOLOGON = 0x8, INFO_COMPRESSION = 0x80, INFO_CompressionTypeMask = 0x1E00,
     RNS_UD_CS_WANT_32BPP_SESSION = 0x2, TYPE_RDP_NEG_FAILURE = 3,
     parseNegotiationResponse = rdpbcgr_parseNegotiationResponse\<rparr>"

definition new_client :: "pystr option \<Rightarrow> pystr option \<Rightarrow> mitm_client" where
  "new_client replacementUsername' replacementPassword' =
     \<lparr>replacementUsername = replacementUsername', replacementPassword = replacementPassword',
      channelDefinitions = [], useTLS = False,
      tcp = \<lparr>tlsStarted = False, disconnected = False\<rparr>,
      securityLayer = None, conferenceName = [49], rdpConnect = [], recorder = [],
      server = [], log = []\<rparr>"


section \<open>What a run leaves behind\<close>



section \<open>Concrete inputs\<close>

text \<open>
  A file \<open>\foo.txt\<close> of five bytes, opened for reading as file 5, read in two pieces and
  closed; and a Client Info PDU of a victim.
\<close>

definition create_foo :: "io_request \<times> io_response" where
  "create_foo =
     (DeviceCreateRequestPDU 1 0 7 0x120089 0x60
        [0x5C, 0, 0x66, 0, 0x6F, 0, 0x6F, 0, 0x2E, 0, 0x74, 0, 0x78, 0, 0x74, 0, 0, 0],
      DeviceIOResponsePDU 1 7 0 [5, 0, 0, 0, 0])"

definition read_foo_1 :: "io_request \<times> io_response" where
  "read_foo_1 =
     (DeviceReadRequestPDU 1 5 8 3 0, DeviceIOResponsePDU 1 8 0 [3, 0, 0, 0, 0x66, 0x6F, 0x6F])"

definition read_foo_2 :: "io_request \<times> io_response" where
  "read_foo_2 =
     (DeviceReadRequestPDU 1 5 9 2 3, DeviceIOResponsePDU 1 9 0 [2, 0, 0, 0, 0x21, 0x0A])"

definition close_foo :: "io_request \<times> io_response" where
  "close_foo = (DeviceCloseRequestPDU 1 5 10, DeviceIOResponsePDU 1 10 0 [0, 0, 0, 0, 0])"

text \<open>The stealer that has opened file 5 and is waiting for the answer to the first read.\<close>

definition reading_foo :: world where
  "reading_foo =
     \<lparr>self = init_stealer\<lparr>completionIdInProgress := [8 \<mapsto> fst read_foo_1],
                           openedFiles := [5 \<mapsto> path (fst create_foo)]\<rparr>,
      peer = init_stealer, disk = Map.empty\<rparr>"

definition victim_info :: client_info_pdu where
  "victim_info = \<lparr>codePage = 0, flags = 0x1BB, domain = [], username = str ''alice'',
     password = str ''secret'', alternateShell = [], workingDir = [], extraInfo = []\<rparr>"

definition victim_data :: client_data_pdu where
  "victim_data = \<lparr>coreData = \<lparr>clientName = str ''PC'', desktopWidth = 1024,
       desktopHeight = 768, earlyCapabilityFlags = 3\<rparr>,
     securityData = [], networkData = None, clusterData = []\<rparr>"

section \<open>Bit masks on Python integers\<close>

lemma and_not_clears: "(x AND NOT c) AND c = (0::int)"
  by (simp add: bit_eq_iff bit_simps)

lemma cleared_compression:
  fixes f :: int
  shows "((f AND NOT c) AND NOT m) AND c = 0"
  by (rule bit_eqI) (auto simp add: bit_simps)

lemma cleared_mask:
  fixes f :: int
  shows "((f AND NOT c) AND NOT m) AND m = 0"
  by (rule bit_eqI) (auto simp add: bit_simps)

lemma two_masks:
  fixes f :: int
  shows "(f AND NOT c) AND NOT m = f AND NOT (c OR m)"
  by (rule bit_eqI) (auto simp add: bit_simps)

lemma autologon_kept:
  fixes f :: int
  assumes "a AND (c OR m) = 0"
  shows "(((f OR a) AND NOT c) AND NOT m) AND a = a"
proof (rule bit_eqI)
  fix n
  from assms have "\<not> bit (a AND (c OR m)) n" by simp
  then show "bit ((((f OR a) AND NOT c) AND NOT m) AND a) n = bit a n"
    by (auto simp add: bit_simps)
qed

section \<open>Client Info: replacement credentials and compression flags\<close>

text \<open>
  C2. When the Client Info PDU is handed to the security layer, \<open>INFO_COMPRESSION\<close> and
  the compression-type mask are cleared in it, whatever is configured; and if a replacement
  username and a replacement password are both configured, it carries both and has
  \<open>INFO_AUTOLOGON\<close> set. The flag values come from an enumeration outside the sources;
  all that is asked of them is that \<open>INFO_AUTOLOGON\<close> shares no bit with the two
  compression masks, which are cleared after it is set.
\<close>

theorem replacement_credentials:
  assumes "securityLayer c = Some out"
    and "INFO_AUTOLOGON E AND (INFO_COMPRESSION E OR INFO_CompressionTypeMask E) = 0"
  shows "\<exists>c' q. onClientInfoPDUReceived E c p = Inr c' \<and> securityLayer c' = Some (out @ [q])
            \<and> flags q AND INFO_COMPRESSION E = 0 \<and> flags q AND INFO_CompressionTypeMask E = 0
            \<and> (\<forall>u pw. replacementUsername c = Some u \<and> replacementPassword c = Some pw
                  \<longrightarrow> username q = u \<and> password q = pw
                      \<and> flags q AND INFO_AUTOLOGON E = INFO_AUTOLOGON E)"
  using assms
  by (auto simp: onClientInfoPDUReceived_def client_log_def Let_def cleared_compression
        cleared_mask autologon_kept
      split: option.splits)

theorem replacement_credentials_witness:
  "securityLayer ((new_client (Some (str ''admin'')) (Some (str ''hunter2'')))
       \<lparr>securityLayer := Some []\<rparr>) = Some []
   \<and> INFO_AUTOLOGON rdpbcgr AND (INFO_COMPRESSION rdpbcgr OR INFO_CompressionTypeMask rdpbcgr) = 0
   \<and> map (\<lambda>q. (username q, password q, flags q AND INFO_AUTOLOGON rdpbcgr,
                flags q AND INFO_COMPRESSION rdpbcgr, flags q AND INFO_CompressionTypeMask rdpbcgr))
        (client_info_sent (onClientInfoPDUReceived rdpbcgr
          ((new_client (Some (str ''admin'')) (Some (str ''hunter2'')))
             \<lparr>securityLayer := Some []\<rparr>)
          victim_info))
       = [(str ''admin'', str ''hunter2'', 8, 0, 0)]"
proof -
  let ?c = "(new_client (Some (str ''admin'')) (Some (str ''hunter2'')))\<lparr>securityLayer := Some []\<rparr>"
  have h1: "securityLayer ?c = Some []" by (simp add: new_client_def)
  have h2: "INFO_AUTOLOGON rdpbcgr AND (INFO_COMPRESSION rdpbcgr OR INFO_CompressionTypeMask rdpbcgr) = 0"
    by (simp add: rdpbcgr_def)
  have u: "replacementUsername ?c = Some (str ''admin'')"
    "replacementPassword ?c = Some (str ''hunter2'')"
    by (simp_all add: new_client_def)
  from replacement_credentials [OF h1 h2, of victim_info]
  show ?thesis using h1 h2 u
    by (auto simp add: client_info_sent_def rdpbcgr_def)
qed

text \<open>
  C9. With no replacement username and no replacement password configured, the PDU handed
  to the security layer is the received one with only its flags changed: the bits of
  \<open>INFO_COMPRESSION\<close> and of the compression-type mask are cleared, every other bit and
  every other field is as received.
\<close>

theorem no_replacement_credentials:
  assumes "replacementUsername c = None" and "replacementPassword c = None"
    and "securityLayer c = Some out"
  shows "\<exists>c'. onClientInfoPDUReceived E c p = Inr c'
           \<and> securityLayer c' = Some (out @ [p\<lparr>flags := flags p
                 AND NOT (INFO_COMPRESSION E OR INFO_CompressionTypeMask E)\<rparr>])"
  using assms
  by (simp add: onClientInfoPDUReceived_def client_log_def Let_def two_masks)

theorem no_replacement_credentials_witness:
  "replacementUsername ((new_client None None)\<lparr>securityLayer := Some []\<rparr>) = None
   \<and> replacementPassword ((new_client None None)\<lparr>securityLayer := Some []\<rparr>) = None
   \<and> securityLayer ((new_client None None)\<lparr>securityLayer := Some []\<rparr>) = Some []
   \<and> client_info_sent (onClientInfoPDUReceived rdpbcgr
         ((new_client None None)\<lparr>securityLayer := Some []\<rparr>) victim_info)
       = [victim_info\<lparr>flags := 0x13B\<rparr>]"
proof -
  let ?c = "(new_client None None)\<lparr>securityLayer := Some []\<rparr>"
  have h1: "replacementUsername ?c = None" and h2: "replacementPassword ?c = None"
    and h3: "securityLayer ?c = Some []"
    by (simp_all add: new_client_def)
  have m: "(0x1BB :: int) AND NOT (0x80 OR 0x1E00) = 0x13B" by simp
  from no_replacement_credentials [OF h1 h2 h3, of rdpbcgr victim_info]
  show ?thesis using h1 h2 h3 m
    by (auto simp add: client_info_sent_def rdpbcgr_def victim_info_def)
qed

section \<open>Connect Initial: what is recorded and what is forwarded\<close>

text \<open>
  C6, as the code has it. \<open>onConnectInitial\<close> records the Client Data before it clears
  \<open>WANT_32BPP\<close>: the \<open>CLIENT_DATA\<close> event holds the PDU as received, and the bit is
  cleared in the PDU sent on through \<open>rdpConnect\<close>.
\<close>

theorem client_data_recorded_as_received:
  "recorder (onConnectInitial E c g d) = recorder c @ [(CLIENT_DATA, d)]
   \<and> (\<exists>d'. rdpConnect (onConnectInitial E c g d) = rdpConnect c @ [d']
         \<and> earlyCapabilityFlags (coreData d') AND RNS_UD_CS_WANT_32BPP_SESSION E = 0)"
  by (simp add: onConnectInitial_def Recorder_record_def client_log_def Let_def and_not_clears
      split: option.splits)

text \<open>
  C6, as claimed, fails: a client that asks for a 32 bpp session (flags 3) is recorded
  with the bit still set.
\<close>

theorem recorded_client_data_counterexample:
  "map (\<lambda>e. earlyCapabilityFlags (coreData (snd e)) AND RNS_UD_CS_WANT_32BPP_SESSION rdpbcgr)
     (recorder (onConnectInitial rdpbcgr (new_client None None) [49] victim_data)) = [2]"
  by (simp add: onConnectInitial_def Recorder_record_def client_log_def Let_def new_client_def
      rdpbcgr_def victim_data_def)

section \<open>Connection Confirm with a negotiation failure\<close>

text \<open>
  C7. On a negotiation failure (type 3, failure code 5: the server requires NLA)
  \<open>onConnectionConfirm\<close> logs the error and then goes on: the TCP layer is not
  disconnected and the Connection Confirm is passed to the server side, as for a
  successful negotiation.
\<close>

theorem negotiation_failure_not_disconnected:
  "(case onConnectionConfirm rdpbcgr (new_client None None) [3, 0, 8, 0, 5, 0, 0, 0] of
      Inl _ \<Rightarrow> False
    | Inr c \<Rightarrow> disconnected (tcp c) = False
        \<and> server c = [Server_onConnectionConfirm [3, 0, 8, 0, 5, 0, 0, 0]]
        \<and> map fst (log c) = [DEBUG, ERROR])"
  by (simp add: onConnectionConfirm_def client_log_def Let_def new_client_def rdpbcgr_def
      rdpbcgr_parseNegotiationResponse_def)

section \<open>The path on disk\<close>

lemma replace_backslash: "replace [92] [47] s = backslashes_to_slashes s"
  by (induction s) (simp_all add: backslashes_to_slashes_def)

lemma replace_dotdot: "replace (str ''..'') [] s = remove_dotdot s"
  by (induction s rule: remove_dotdot.induct) (auto simp: str_def)

text \<open>
  C8, as the code has it. The path written to is the decoded remote path with the NULs
  trimmed at both ends (\<open>str.strip\<close>), every backslash turned into a slash, every \<open>..\<close>
  removed from left to right, and \<open>./saved_files/\<close> in front.
\<close>

theorem on_disk_path_sanitized:
  "on_disk_path H remote = str ''./saved_files/''
     @ remove_dotdot (backslashes_to_slashes
         (trim_trailing_NULs (trim_leading_NULs (decodeUTF16LE H remote))))"
  by (simp add: on_disk_path_def goodPath_def bytesToPath_def strip_def replace_backslash
      replace_dotdot trim_trailing_NULs_def trim_leading_NULs_def)

text \<open>
  C8, as claimed (trailing NULs only), fails for a remote path that starts with a NUL:
  the code drops it, the claim keeps it.
\<close>

theorem on_disk_path_counterexample:
  "on_disk_path rdpefs [0, 0, 0x41, 0] \<noteq> spec_path rdpefs [0, 0, 0x41, 0]"
  by (simp add: on_disk_path_def goodPath_def bytesToPath_def strip_def spec_path_def
      trim_trailing_NULs_def backslashes_to_slashes_def rdpefs_def str_def)

section \<open>One PDU through the stealer\<close>

text \<open>
  C10. A response whose completion id is not in \<open>completionIdInProgress\<close> changes none
  of the three maps of either stealer and nothing on disk, and is forwarded to the peer as
  received.
\<close>

theorem unknown_completionId_ignored:
  assumes "completionIdInProgress (self w) (rsp_completionId r) = None"
  shows "\<exists>w'. onPDUReceived H w (IOResponse r) = Inr w'
           \<and> completionIdInProgress (self w') = completionIdInProgress (self w)
           \<and> openedFiles (self w') = openedFiles (self w)
           \<and> finalFiles (self w') = finalFiles (self w)
           \<and> completionIdInProgress (peer w') = completionIdInProgress (peer w)
           \<and> openedFiles (peer w') = openedFiles (peer w)
           \<and> finalFiles (peer w') = finalFiles (peer w)
           \<and> disk w' = disk w
           \<and> sent (peer w') = sent (peer w) @ [IOResponse r]"
  using assms
  by (simp add: onPDUReceived_def handleIOResponse_def logmsg_def peer_sendPDU_def)

theorem unknown_completionId_ignored_witness:
  "completionIdInProgress (self reading_foo) (rsp_completionId (snd read_foo_2)) = None
   \<and> (\<exists>w'. onPDUReceived rdpefs reading_foo (IOResponse (snd read_foo_2)) = Inr w'
           \<and> completionIdInProgress (self w') = completionIdInProgress (self reading_foo)
           \<and> openedFiles (self w') = openedFiles (self reading_foo)
           \<and> finalFiles (self w') = finalFiles (self reading_foo)
           \<and> completionIdInProgress (peer w') = completionIdInProgress (peer reading_foo)
           \<and> openedFiles (peer w') = openedFiles (peer reading_foo)
           \<and> finalFiles (peer w') = finalFiles (peer reading_foo)
           \<and> disk w' = disk reading_foo
           \<and> sent (peer w') = sent (peer reading_foo) @ [IOResponse (snd read_foo_2)])"
proof -
  have h: "completionIdInProgress (self reading_foo) (rsp_completionId (snd read_foo_2)) = None"
    by (simp add: reading_foo_def read_foo_2_def)
  show ?thesis using h unknown_completionId_ignored [OF h, of rdpefs] by simp
qed

text \<open>
  C3. A Read request for a file id that the peer has not in \<open>openedFiles\<close> raises
  \<open>KeyError\<close> in \<open>handleIORequest\<close>, where the debug message looks the file up; nothing
  catches it, and the request is not forwarded. The answer to a Read request raises
  \<open>KeyError\<close> in \<open>handleReadResponse\<close> when the file has been closed in between.
\<close>

theorem read_of_unopened_file_raises:
  "raised (onPDUReceived rdpefs (session Map.empty)
     (IORequest (DeviceReadRequestPDU 1 5 7 2048 0))) = Some KeyError
   \<and> sent_to_peer (onPDUReceived rdpefs (session Map.empty)
     (IORequest (DeviceReadRequestPDU 1 5 7 2048 0))) = None
   \<and> raised (run rdpefs (session Map.empty)
     (exchange create_foo @ [ToPeer (IORequest (fst read_foo_1))] @ exchange close_foo
        @ [ToSelf (IOResponse (snd read_foo_1))])) = Some KeyError"
  by (simp add: raised_def sent_to_peer_def exchange_def onPDUReceived_def
      handleIORequest_def handleIOResponse_def handleReadResponse_def
      handleCreateResponse_def handleCloseResponse_def writeToDisk_def session_def
      init_stealer_def swap_def create_foo_def close_foo_def peer_sendPDU_def
      read_foo_1_def rdpefs_def rdpefs_parseReadResponse_def
      rdpefs_parseDeviceCreateResponse_def Uint32LE_def logmsg_def Let_def)

lemma handleIORequest_pduToSend:
  "handleIORequest H w r = Inr w'
     \<Longrightarrow> pduToSend (self w') = pduToSend (self w) \<and> sent (peer w') = sent (peer w)"
  by (auto simp: handleIORequest_def logmsg_def Let_def
      split: io_request.splits option.splits if_splits)

lemma handleIOResponse_pduToSend:
  assumes "handleIOResponse H w r = Inr w'" "pduToSend (self w) = Some (IOResponse r)"
  shows "pduToSend (self w') = Some (forwarded H w (IOResponse r))
           \<and> sent (peer w') = sent (peer w)"
  using assms
  by (auto simp: handleIOResponse_def handleReadResponse_def handleCreateResponse_def
        handleCloseResponse_def writeToDisk_def forwarded_def logmsg_def Let_def
      split: io_request.splits option.splits if_splits sum.splits io_response.splits)

lemma handleDeviceListAnnounceRequest_keeps:
  "pduToSend (self (handleDeviceListAnnounceRequest w ds)) = pduToSend (self w)
   \<and> sent (peer (handleDeviceListAnnounceRequest w ds)) = sent (peer w)"
  unfolding handleDeviceListAnnounceRequest_def
  by (induction ds arbitrary: w) (simp_all add: logmsg_def)

lemma onPDUReceived_forwards:
  assumes "onPDUReceived H w p = Inr w'"
  shows "sent (peer w') = sent (peer w) @ [forwarded H w p]"
proof (cases p)
  case (IORequest r)
  then show ?thesis
    using assms handleIORequest_pduToSend [of H "w\<lparr>self := (self w)\<lparr>pduToSend := Some p\<rparr>\<rparr>" r]
    by (auto simp: onPDUReceived_def peer_sendPDU_def forwarded_def Let_def
        split: sum.splits option.splits)
next
  case (IOResponse r)
  then show ?thesis
    using assms handleIOResponse_pduToSend [of H "w\<lparr>self := (self w)\<lparr>pduToSend := Some p\<rparr>\<rparr>" r]
    by (auto simp: onPDUReceived_def peer_sendPDU_def forwarded_def Let_def
        split: sum.splits option.splits)
next
  case (DeviceListAnnounceRequest ds)
  then show ?thesis
    using assms
      handleDeviceListAnnounceRequest_keeps [of "w\<lparr>self := (self w)\<lparr>pduToSend := Some p\<rparr>\<rparr>" ds]
    by (auto simp: onPDUReceived_def peer_sendPDU_def forwarded_def Let_def
        split: sum.splits option.splits)
next
  case (DeviceRedirectionServerCapabilitiesPDU x)
  then show ?thesis using assms
    by (auto simp: onPDUReceived_def peer_sendPDU_def forwarded_def logmsg_def Let_def
        split: sum.splits option.splits)
next
  case (DeviceRedirectionClientCapabilitiesPDU x)
  then show ?thesis using assms
    by (auto simp: onPDUReceived_def peer_sendPDU_def forwarded_def logmsg_def Let_def
        split: sum.splits option.splits)
next
  case (OtherPDU x)
  then show ?thesis using assms
    by (auto simp: onPDUReceived_def peer_sendPDU_def forwarded_def logmsg_def Let_def
        split: sum.splits option.splits)
qed

text \<open>
  C4, as the code has it. When \<open>onPDUReceived\<close> returns, one PDU has gone to the peer:
  the received one, except for a response to a pending Read or Create request, where it
  is the PDU that \<open>parseReadResponse\<close> or \<open>parseDeviceCreateResponse\<close> built from it.
\<close>

theorem forwarded_pdu:
  assumes "sent_to_peer (onPDUReceived H w p) = Some out"
  shows "out = sent (peer w) @ [forwarded H w p]"
  using assms onPDUReceived_forwards [of H w p]
  by (auto simp: sent_to_peer_def split: sum.splits)

theorem forwarded_pdu_witness:
  "sent_to_peer (onPDUReceived rdpefs reading_foo (IOResponse (snd read_foo_1)))
     = Some [IOResponse (DeviceReadResponsePDU 1 8 0 [0x66, 0x6F, 0x6F])]
   \<and> [IOResponse (DeviceReadResponsePDU 1 8 0 [0x66, 0x6F, 0x6F])]
     = sent (peer reading_foo) @ [forwarded rdpefs reading_foo (IOResponse (snd read_foo_1))]"
proof -
  have h: "sent_to_peer (onPDUReceived rdpefs reading_foo (IOResponse (snd read_foo_1)))
     = Some [IOResponse (DeviceReadResponsePDU 1 8 0 [0x66, 0x6F, 0x6F])]"
    by (simp add: sent_to_peer_def onPDUReceived_def handleIOResponse_def
        handleReadResponse_def reading_foo_def read_foo_1_def create_foo_def rdpefs_def
        rdpefs_parseReadResponse_def Uint32LE_def init_stealer_def logmsg_def
        peer_sendPDU_def Let_def)
  from forwarded_pdu [OF h] h show ?thesis by simp
qed

text \<open>
  C4, as claimed, fails: the answer to the pending read is received as a
  \<open>DeviceIOResponsePDU\<close> and forwarded as the \<open>DeviceReadResponsePDU\<close> built by the parser.
\<close>

theorem forwarded_pdu_counterexample:
  "sent_to_peer (onPDUReceived rdpefs reading_foo (IOResponse (snd read_foo_1)))
     \<noteq> Some (sent (peer reading_foo) @ [IOResponse (snd read_foo_1)])"
  by (simp add: sent_to_peer_def onPDUReceived_def handleIOResponse_def
      handleReadResponse_def reading_foo_def read_foo_1_def create_foo_def rdpefs_def
      rdpefs_parseReadResponse_def Uint32LE_def init_stealer_def logmsg_def
      peer_sendPDU_def Let_def)


section \<open>Traces: one step at a time\<close>














section \<open>A file read from start to end\<close>




section \<open>Responses that arrive in any order\<close>








end
